theory Spec2Isabelle
  imports Main "HOL-Library.Sublist" "HOL-Library.Word"
begin

section \<open>Data crossing the HTTP boundary\<close>

text \<open>
  The router of \<^verbatim>\<open>backend/app.py\<close> reads two attributes of every stored message,
  \<^verbatim>\<open>m.type\<close> and \<^verbatim>\<open>m.content\<close>, and one attribute of the object the session store
  hands out, \<^verbatim>\<open>chat.messages\<close>.
\<close>

record message =
  type :: string
  content :: string

record chat =
  messages :: "message list"

text \<open>The Python values the handlers build: strings, lists and dicts (in insertion order).\<close>

datatype json = JStr string | JList "json list" | JDict "(string \<times> json) list"

type_synonym bytes = "8 word list"

text \<open>An exception raised inside a collaborator.\<close>

datatype exception = Exception string

text \<open>
  What the handlers return to the framework and what the framework answers:
  a dict is sent as a JSON response with status 200; \<^verbatim>\<open>Response(content, media_type)\<close>
  keeps its default status 200; a missing required form field is answered by the
  framework itself (422) and an uncaught exception becomes its generic 500.
\<close>

datatype http_response =
    JSONResponse nat json
  | Response nat string bytes
  | Unprocessable_entity
  | Internal_server_error

fun status_code :: "http_response \<Rightarrow> nat" where
  "status_code (JSONResponse s b) = s"
| "status_code (Response s m b) = s"
| "status_code Unprocessable_entity = 422"
| "status_code Internal_server_error = 500"

datatype http_method = GET | POST | OTHER string

text \<open>
  A request as it arrives: \<open>None\<close> for a query parameter or a form field means that the
  request does not carry it; a field sent without a value is \<open>Some []\<close>.
\<close>

record request =
  verb :: http_method
  path :: string
  query_params :: "string \<rightharpoonup> string"
  form :: "string \<rightharpoonup> string"

section \<open>The collaborators\<close>

text \<open>
  The modules \<^verbatim>\<open>session_store\<close>, \<^verbatim>\<open>chat\<close> and \<^verbatim>\<open>talk\<close> are imported by the router and
  are parameters here, over an arbitrary representation \<open>'s\<close> of the session store.

  \<^item> \<open>get_session_history\<close>. Modelled from the spec: the function of module
    \<^verbatim>\<open>session_store\<close>, \<^verbatim>\<open>get_session_history(session_id) -> SessionHistory | absent\<close>,
    through which "the router only reads" the store.
  \<^item> \<open>process_query\<close>: the function of module \<^verbatim>\<open>chat\<close>; it returns an answer or raises,
    and may change the store in either case.
  \<^item> \<open>text_to_speech\<close>. Modelled from the spec: the function of module \<^verbatim>\<open>talk\<close>, which
    "consumes text + language + voice, returns encoded audio bytes", or raises.
  \<^item> \<open>truthy\<close>: the truth value Python gives the object returned by
    \<open>get_session_history\<close> in \<^verbatim>\<open>if st:\<close>; it is fixed by the object's class, which
    \<^verbatim>\<open>session_store\<close> declares.
\<close>

record 's collaborators =
  get_session_history :: "string \<Rightarrow> 's \<Rightarrow> chat option"
  process_query :: "string \<Rightarrow> string \<Rightarrow> 's \<Rightarrow> (exception + string) \<times> 's"
  text_to_speech :: "string \<Rightarrow> string \<Rightarrow> string \<Rightarrow> exception + bytes"
  truthy :: "chat \<Rightarrow> bool"

text \<open>
  The state a request is handled in: the session store and, so that the calls a handler
  makes can be counted, the log of collaborator calls made so far.
\<close>

datatype call =
    Call_get_session_history string
  | Call_process_query string string
  | Call_text_to_speech string string string

record 's world =
  store :: 's
  calls :: "call list"

definition call_get_session_history ::
  "'s collaborators \<Rightarrow> string \<Rightarrow> 's world \<Rightarrow> chat option \<times> 's world" where
  "call_get_session_history C session_id w =
     (get_session_history C session_id (store w),
      w\<lparr>calls := calls w @ [Call_get_session_history session_id]\<rparr>)"

definition call_process_query ::
  "'s collaborators \<Rightarrow> string \<Rightarrow> string \<Rightarrow> 's world \<Rightarrow> (exception + string) \<times> 's world" where
  "call_process_query C query session_id w =
     (case process_query C query session_id (store w) of
        (r, s) \<Rightarrow> (r, \<lparr>store = s, calls = calls w @ [Call_process_query query session_id]\<rparr>))"

definition call_text_to_speech ::
  "'s collaborators \<Rightarrow> string \<Rightarrow> string \<Rightarrow> string \<Rightarrow> 's world \<Rightarrow> (exception + bytes) \<times> 's world" where
  "call_text_to_speech C text lang voice w =
     (text_to_speech C text lang voice,
      w\<lparr>calls := calls w @ [Call_text_to_speech text lang voice]\<rparr>)"

section \<open>The handlers\<close>

definition root :: json where
  "root = JDict [(''message'', JStr ''Careerist Chatbot Backend Running'')]"

definition get_history :: "'s collaborators \<Rightarrow> string \<Rightarrow> 's world \<Rightarrow> json \<times> 's world" where
  "get_history C session_id w =
     (case call_get_session_history C session_id w of
        (chat, w1) \<Rightarrow>
          (case chat of
             None \<Rightarrow> (JDict [(''chat_history'', JList [])], w1)
           | Some c \<Rightarrow>
               (JDict [(''chat_history'',
                   JList (map (\<lambda>m. JDict [(''role'', JStr (type m)), (''content'', JStr (content m))])
                            (messages c)))], w1)))"

definition ask_question ::
  "'s collaborators \<Rightarrow> string \<Rightarrow> string \<Rightarrow> 's world \<Rightarrow> (exception + json) \<times> 's world" where
  "ask_question C query session_id w =
     (case call_process_query C query session_id w of
        (Inl e, w1) \<Rightarrow> (Inl e, w1)
      | (Inr answer, w1) \<Rightarrow>
          (let history = [] in
           case call_get_session_history C session_id w1 of
             (st, w2) \<Rightarrow>
               (let history =
                      (case st of
                         None \<Rightarrow> history
                       | Some s \<Rightarrow>
                           if truthy C s
                           then map (\<lambda>msg. JDict [(''role'', JStr (type msg)),
                                                   (''content'', JStr (content msg))])
                                  (messages s)
                           else history)
                in (Inr (JDict [(''answer'', JStr answer), (''chat_history'', JList history)]),
                    w2))))"

definition tts_endpoint ::
  "'s collaborators \<Rightarrow> string \<Rightarrow> string \<Rightarrow> string \<Rightarrow> 's world
     \<Rightarrow> (exception + http_response) \<times> 's world" where
  "tts_endpoint C text lang voice w =
     (case call_text_to_speech C text lang voice w of
        (Inl e, w1) \<Rightarrow> (Inl e, w1)
      | (Inr audio_bytes, w1) \<Rightarrow> (Inr (Response 200 ''audio/mpeg'' audio_bytes), w1))"

section \<open>Routing and parameter binding\<close>

text \<open>A parameter declared with a default takes it when the binding finds no value.\<close>

definition or_default :: "string option \<Rightarrow> string \<Rightarrow> string" where
  "or_default v d = (case v of None \<Rightarrow> d | Some x \<Rightarrow> x)"

text \<open>
  The framework's binding of a parameter declared with \<^verbatim>\<open>Form\<close>: a field that is present
  but holds the empty string counts as missing, as an absent one does. A query parameter
  (\<^verbatim>\<open>session_id\<close> of \<^verbatim>\<open>get_history\<close>) is bound as it is sent.
\<close>

definition form_value :: "request \<Rightarrow> string \<Rightarrow> string option" where
  "form_value req name =
     (case form req name of
        None \<Rightarrow> None
      | Some v \<Rightarrow> if v = [] then None else Some v)"

text \<open>
  The four routes the decorators register, with the binding their signatures declare:
  \<^verbatim>\<open>Form(...)\<close> is required, and a request that gives it no value is answered 422
  without the handler being run; the other parameters carry defaults. \<open>None\<close>: no route
  of this file matches the request.
\<close>

definition app ::
  "'s collaborators \<Rightarrow> request \<Rightarrow> 's world \<Rightarrow> http_response option \<times> 's world" where
  "app C req w =
     (if verb req = GET \<and> path req = ''/'' then (Some (JSONResponse 200 root), w)
      else if verb req = GET \<and> path req = ''/history'' then
        (case get_history C (or_default (query_params req ''session_id'') ''default_session'') w of
           (body, w1) \<Rightarrow> (Some (JSONResponse 200 body), w1))
      else if verb req = POST \<and> path req = ''/ask'' then
        (case form_value req ''query'' of
           None \<Rightarrow> (Some Unprocessable_entity, w)
         | Some query \<Rightarrow>
             (case ask_question C query
                     (or_default (form_value req ''session_id'') ''default_session'') w of
                (Inl e, w1) \<Rightarrow> (Some Internal_server_error, w1)
              | (Inr body, w1) \<Rightarrow> (Some (JSONResponse 200 body), w1)))
      else if verb req = POST \<and> path req = ''/tts'' then
        (case form_value req ''text'' of
           None \<Rightarrow> (Some Unprocessable_entity, w)
         | Some text \<Rightarrow>
             (case tts_endpoint C text (or_default (form_value req ''lang'') ''en'')
                     (or_default (form_value req ''voice'') ''male'') w of
                (Inl e, w1) \<Rightarrow> (Some Internal_server_error, w1)
              | (Inr r, w1) \<Rightarrow> (Some r, w1)))
      else (None, w))"

section \<open>Observations on responses and runs\<close>

text \<open>Reading a field of a response body, and the list its \<^verbatim>\<open>chat_history\<close> field holds.\<close>

fun dict_get :: "json \<Rightarrow> string \<Rightarrow> json option" where
  "dict_get (JDict kvs) k = map_of kvs k"
| "dict_get _ k = None"

definition chat_history_field :: "json \<Rightarrow> json list" where
  "chat_history_field body =
     (case dict_get body ''chat_history'' of Some (JList xs) \<Rightarrow> xs | _ \<Rightarrow> [])"

text \<open>The transcript the store holds for a session; an unknown session has none.\<close>

definition transcript :: "'s collaborators \<Rightarrow> 's \<Rightarrow> string \<Rightarrow> message list" where
  "transcript C s session_id =
     (case get_session_history C session_id s of None \<Rightarrow> [] | Some c \<Rightarrow> messages c)"

text \<open>
  The store is append-only: whatever \<open>process_query\<close> does for a session, answering or
  raising, the transcript of that session afterwards starts with the one before.
\<close>

definition append_only :: "'s collaborators \<Rightarrow> bool" where
  "append_only C \<longleftrightarrow>
     (\<forall>query session_id s.
        prefix (transcript C s session_id)
          (transcript C (snd (process_query C query session_id s)) session_id))"

text \<open>
  A run of \<^verbatim>\<open>POST /ask\<close> calls for one session, each followed by \<^verbatim>\<open>GET /history\<close>:
  the lengths of the transcripts that the \<^verbatim>\<open>/history\<close> calls return, in order.
\<close>

fun ask_then_history :: "'s collaborators \<Rightarrow> string \<Rightarrow> string list \<Rightarrow> 's world \<Rightarrow> nat list" where
  "ask_then_history C session_id [] w = []"
| "ask_then_history C session_id (q # qs) w =
     (case ask_question C q session_id w of
        (r, w1) \<Rightarrow>
          (case get_history C session_id w1 of
             (body, w2) \<Rightarrow>
               length (chat_history_field body) # ask_then_history C session_id qs w2))"

definition history_lengths :: "'s collaborators \<Rightarrow> string \<Rightarrow> string list \<Rightarrow> 's world \<Rightarrow> nat list" where
  "history_lengths C session_id qs w =
     (case get_history C session_id w of
        (body, w0) \<Rightarrow> length (chat_history_field body) # ask_then_history C session_id qs w0)"

section \<open>A store to run the router on\<close>

text \<open>
  An in-memory store, a dictionary from session ids to history objects, and collaborators
  over it: the query processor records the question and its answer and rejects an empty
  query and one of more than twenty characters; the synthesizer knows English only. A
  history object is true, as every Python object is unless its class says otherwise.
\<close>

definition demo :: "(string \<times> chat) list collaborators" where
  "demo =
     \<lparr>get_session_history = (\<lambda>session_id s. map_of s session_id),
      process_query = (\<lambda>query session_id s.
         if query = [] then (Inl (Exception ''empty query''), s)
         else if 20 < length query then (Inl (Exception ''query too long''), s)
         else (Inr (''echo '' @ query),
               (session_id,
                \<lparr>messages =
                   (case map_of s session_id of None \<Rightarrow> [] | Some c \<Rightarrow> messages c)
                   @ [\<lparr>type = ''human'', content = query\<rparr>,
                      \<lparr>type = ''ai'', content = ''echo '' @ query\<rparr>]\<rparr>) # s)),
      text_to_speech = (\<lambda>text lang voice.
         if lang = ''en'' then Inr (map (\<lambda>c. of_nat (of_char c)) text)
         else Inl (Exception ''unsupported language'')),
      truthy = (\<lambda>c. True)\<rparr>"

text \<open>Requests as a client sends them: a path with query parameters or form fields.\<close>

definition get_request :: "string \<Rightarrow> (string \<times> string) list \<Rightarrow> request" where
  "get_request p qs = \<lparr>verb = GET, path = p, query_params = map_of qs, form = Map.empty\<rparr>"

definition post_request :: "string \<Rightarrow> (string \<times> string) list \<Rightarrow> request" where
  "post_request p fs = \<lparr>verb = POST, path = p, query_params = Map.empty, form = map_of fs\<rparr>"


definition w0 :: "(string \<times> chat) list world" where
  "w0 = \<lparr>store = [], calls = []\<rparr>"

text \<open>A store that already holds a session, with a message whose role is neither human nor ai.\<close>

definition w_seen :: "(string \<times> chat) list world" where
  "w_seen = \<lparr>store = [(''s1'', \<lparr>messages = [\<lparr>type = ''tool'', content = ''42''\<rparr>]\<rparr>)], calls = []\<rparr>"

section \<open>What each handler does to the state\<close>

lemma get_history_world:
  "snd (get_history C session_id w) = w\<lparr>calls := calls w @ [Call_get_session_history session_id]\<rparr>"
  by (simp add: get_history_def call_get_session_history_def split: option.split)

lemma get_history_body:
  "fst (get_history C session_id w) =
     JDict [(''chat_history'',
             JList (map (\<lambda>m. JDict [(''role'', JStr (type m)), (''content'', JStr (content m))])
                      (transcript C (store w) session_id)))]"
  by (simp add: get_history_def call_get_session_history_def transcript_def split: option.split)

lemma get_history_chat_history:
  "chat_history_field (fst (get_history C session_id w)) =
     map (\<lambda>m. JDict [(''role'', JStr (type m)), (''content'', JStr (content m))])
       (transcript C (store w) session_id)"
  by (simp add: get_history_body chat_history_field_def)

lemma get_history_length:
  "length (chat_history_field (fst (get_history C session_id w))) =
     length (transcript C (store w) session_id)"
  by (simp add: get_history_chat_history)

lemma ask_question_store:
  "store (snd (ask_question C query session_id w)) =
     snd (process_query C query session_id (store w))"
  by (simp add: ask_question_def call_process_query_def call_get_session_history_def
      split: prod.split sum.split option.split)

lemma ask_question_raises:
  "process_query C query session_id (store w) = (Inl e, s) \<Longrightarrow>
   ask_question C query session_id w =
     (Inl e, \<lparr>store = s, calls = calls w @ [Call_process_query query session_id]\<rparr>)"
  by (simp add: ask_question_def call_process_query_def)

lemma ask_question_body:
  assumes "\<forall>c. messages c \<noteq> [] \<longrightarrow> truthy C c"
    and "ask_question C query session_id w = (Inr body, w')"
  shows "\<exists>answer. fst (process_query C query session_id (store w)) = Inr answer \<and>
     body = JDict [(''answer'', JStr answer),
                   (''chat_history'',
                    JList (map (\<lambda>m. JDict [(''role'', JStr (type m)),
                                             (''content'', JStr (content m))])
                             (transcript C (store w') session_id)))]"
  using assms
  by (auto simp add: ask_question_def call_process_query_def call_get_session_history_def
      transcript_def split: prod.splits sum.splits option.splits)

lemma ask_question_chat_history:
  assumes "\<forall>c. messages c \<noteq> [] \<longrightarrow> truthy C c"
    and "ask_question C query session_id w = (Inr body, w')"
  shows "chat_history_field body =
     map (\<lambda>m. JDict [(''role'', JStr (type m)), (''content'', JStr (content m))])
       (transcript C (store w') session_id)"
  using ask_question_body [OF assms] by (auto simp add: chat_history_field_def)

lemma tts_endpoint_world:
  "snd (tts_endpoint C text lang voice w) =
     w\<lparr>calls := calls w @ [Call_text_to_speech text lang voice]\<rparr>"
  by (simp add: tts_endpoint_def call_text_to_speech_def split: sum.split)

lemma tts_endpoint_raises:
  "text_to_speech C text lang voice = Inl e \<Longrightarrow>
   tts_endpoint C text lang voice w =
     (Inl e, w\<lparr>calls := calls w @ [Call_text_to_speech text lang voice]\<rparr>)"
  by (simp add: tts_endpoint_def call_text_to_speech_def)

lemma form_value_present:
  "form req name = Some v \<Longrightarrow> v \<noteq> [] \<Longrightarrow> form_value req name = Some v"
  by (simp add: form_value_def)

lemma app_store:
  "store (snd (app C req w)) =
     (if verb req = POST \<and> path req = ''/ask'' then
        (case form_value req ''query'' of
           None \<Rightarrow> store w
         | Some query \<Rightarrow>
             snd (process_query C query
                    (or_default (form_value req ''session_id'') ''default_session'') (store w)))
      else store w)"
proof -
  have h: "store (snd (case get_history C sid w of
                         (body, w1) \<Rightarrow> (Some (JSONResponse 200 body), w1))) = store w" for sid
    using get_history_world [of C sid w] by (cases "get_history C sid w") simp
  have t: "store (snd (case tts_endpoint C t l v w of
                         (Inl e, w1) \<Rightarrow> (Some Internal_server_error, w1)
                       | (Inr r, w1) \<Rightarrow> (Some r, w1))) = store w" for t l v
    using tts_endpoint_world [of C t l v w]
    by (cases "tts_endpoint C t l v w") (simp split: sum.split)
  have a: "store (snd (case ask_question C q sid w of
                         (Inl e, w1) \<Rightarrow> (Some Internal_server_error, w1)
                       | (Inr body, w1) \<Rightarrow> (Some (JSONResponse 200 body), w1)))
             = snd (process_query C q sid (store w))" for q sid
    using ask_question_store [of C q sid w]
    by (cases "ask_question C q sid w") (simp split: sum.split)
  show ?thesis
    by (simp add: app_def h t a split: option.split)
qed

section \<open>Runs of an append-only store\<close>

lemma append_only_length:
  assumes "append_only C"
  shows "length (transcript C (store w) session_id)
           \<le> length (transcript C (store (snd (ask_question C q session_id w))) session_id)"
  using assms unfolding append_only_def ask_question_store
  by (blast intro: prefix_length_le)

lemma ask_then_history_bounded:
  assumes "append_only C"
  shows "\<forall>n \<in> set (ask_then_history C session_id qs w).
           length (transcript C (store w) session_id) \<le> n"
proof (induction qs arbitrary: w)
  case Nil
  show ?case by simp
next
  case (Cons q qs)
  obtain r w1 where a: "ask_question C q session_id w = (r, w1)"
    by (cases "ask_question C q session_id w")
  obtain body w2 where h: "get_history C session_id w1 = (body, w2)"
    by (cases "get_history C session_id w1")
  from a have w1: "w1 = snd (ask_question C q session_id w)" by simp
  from h have w2: "store w2 = store w1"
    using get_history_world [of C session_id w1] by simp
  from h have len: "length (chat_history_field body) = length (transcript C (store w1) session_id)"
    using get_history_length [of C session_id w1] by simp
  have step: "length (transcript C (store w) session_id)
                \<le> length (transcript C (store w1) session_id)"
    unfolding w1 by (rule append_only_length [OF assms])
  have "\<forall>n \<in> set (ask_then_history C session_id qs w2).
          length (transcript C (store w1) session_id) \<le> n"
    using Cons.IH [of w2] w2 by simp
  with step len show ?case
    by (auto simp add: a h)
qed

lemma ask_then_history_sorted:
  assumes "append_only C"
  shows "sorted (ask_then_history C session_id qs w)"
proof (induction qs arbitrary: w)
  case Nil
  show ?case by simp
next
  case (Cons q qs)
  obtain r w1 where a: "ask_question C q session_id w = (r, w1)"
    by (cases "ask_question C q session_id w")
  obtain body w2 where h: "get_history C session_id w1 = (body, w2)"
    by (cases "get_history C session_id w1")
  from h have w2: "store w2 = store w1"
    using get_history_world [of C session_id w1] by simp
  from h have len: "length (chat_history_field body) = length (transcript C (store w1) session_id)"
    using get_history_length [of C session_id w1] by simp
  have "\<forall>n \<in> set (ask_then_history C session_id qs w2).
          length (transcript C (store w1) session_id) \<le> n"
    using ask_then_history_bounded [OF assms, of session_id qs w2] w2 by simp
  with len Cons.IH [of w2] show ?case
    by (simp add: a h)
qed

section \<open>Properties of the router\<close>




text \<open>
  C2: if the store is append-only, then over any run of \<^verbatim>\<open>POST /ask\<close> calls for one
  session, whether they answer or fail, the transcripts that \<^verbatim>\<open>GET /history\<close> returns
  before the run and after each call never get shorter.
\<close>

theorem history_length_monotone:
  assumes "append_only C"
  shows "sorted (history_lengths C session_id qs w)"
proof -
  obtain body w1 where h: "get_history C session_id w = (body, w1)"
    by (cases "get_history C session_id w")
  from h have w1: "store w1 = store w"
    using get_history_world [of C session_id w] by simp
  from h have len: "length (chat_history_field body) = length (transcript C (store w) session_id)"
    using get_history_length [of C session_id w] by simp
  have "\<forall>n \<in> set (ask_then_history C session_id qs w1).
          length (transcript C (store w) session_id) \<le> n"
    using ask_then_history_bounded [OF assms, of session_id qs w1] w1 by simp
  with len ask_then_history_sorted [OF assms, of session_id qs w1] show ?thesis
    by (simp add: history_lengths_def h)
qed

theorem history_length_monotone_witness:
  "append_only demo \<and> history_lengths demo ''s1'' [''a'', [], ''b''] w0 = [0, 2, 2, 4] \<and>
   sorted (history_lengths demo ''s1'' [''a'', [], ''b''] w0)"
proof -
  have a: "append_only demo"
    by (simp add: append_only_def transcript_def demo_def)
  have v: "history_lengths demo ''s1'' [''a'', [], ''b''] w0 = [0, 2, 2, 4]"
    by (simp add: history_lengths_def get_history_def ask_question_def call_process_query_def
        call_get_session_history_def chat_history_field_def demo_def w0_def)
  from history_length_monotone [OF a, of "''s1''" "[''a'', [], ''b'']" w0] a v
  show ?thesis by simp
qed

text \<open>
  C3: \<^verbatim>\<open>GET /history\<close> for a session for which \<open>get_session_history\<close> returns nothing
  answers with status 200 and the body \<^verbatim>\<open>{"chat_history": []}\<close>.
\<close>

theorem history_unknown_session:
  assumes "verb req = GET" and "path req = ''/history''"
    and "get_session_history C (or_default (query_params req ''session_id'') ''default_session'')
           (store w) = None"
  shows "fst (app C req w) = Some (JSONResponse 200 (JDict [(''chat_history'', JList [])]))"
  using assms
  by (simp add: app_def get_history_def call_get_session_history_def)

theorem history_unknown_session_witness:
  "fst (app demo (get_request ''/history'' [(''session_id'', ''nobody'')]) w_seen)
     = Some (JSONResponse 200 (JDict [(''chat_history'', JList [])]))"
  using history_unknown_session
    [of "get_request ''/history'' [(''session_id'', ''nobody'')]" demo w_seen]
  by (simp add: get_request_def or_default_def demo_def w_seen_def)

text \<open>
  C4: \<^verbatim>\<open>GET /\<close> answers with status 200 and the fixed message, whatever the store and the
  call log hold, and leaves both as they are.
\<close>

theorem root_constant:
  assumes "verb req = GET" and "path req = ''/''"
  shows "app C req w =
    (Some (JSONResponse 200 (JDict [(''message'', JStr ''Careerist Chatbot Backend Running'')])), w)"
  using assms by (simp add: app_def root_def)

theorem root_constant_witness:
  "app demo (get_request ''/'' []) w_seen =
    (Some (JSONResponse 200 (JDict [(''message'', JStr ''Careerist Chatbot Backend Running'')])),
     w_seen)"
  using root_constant [of "get_request ''/'' []" demo w_seen]
  by (simp add: get_request_def)

text \<open>
  C5: when \<open>text_to_speech\<close> returns bytes for the text, language and voice that a
  \<^verbatim>\<open>POST /tts\<close> request binds, the response has status 200, media type \<^verbatim>\<open>audio/mpeg\<close> and
  exactly those bytes as its body.
\<close>

theorem tts_body_is_audio:
  assumes "text_to_speech C text lang voice = Inr audio_bytes"
  shows "fst (tts_endpoint C text lang voice w) = Inr (Response 200 ''audio/mpeg'' audio_bytes) \<and>
         (verb req = POST \<and> path req = ''/tts'' \<and> form req ''text'' = Some text \<and> text \<noteq> [] \<and>
          or_default (form_value req ''lang'') ''en'' = lang \<and>
          or_default (form_value req ''voice'') ''male'' = voice
          \<longrightarrow> fst (app C req w) = Some (Response 200 ''audio/mpeg'' audio_bytes))"
  using assms
  by (auto simp add: app_def tts_endpoint_def call_text_to_speech_def form_value_present)

theorem tts_body_is_audio_witness:
  "text_to_speech demo ''hi'' ''en'' ''male'' = Inr [104, 105] \<and>
   fst (app demo (post_request ''/tts'' [(''text'', ''hi''), (''lang'', [])]) w0) =
     Some (Response 200 ''audio/mpeg'' [104, 105])"
proof -
  have t: "text_to_speech demo ''hi'' ''en'' ''male'' = Inr [104, 105]"
    by (simp add: demo_def)
  from tts_body_is_audio [OF t, of w0 "post_request ''/tts'' [(''text'', ''hi''), (''lang'', [])]"] t
  show ?thesis by (simp add: post_request_def or_default_def form_value_def)
qed

text \<open>
  C6: an exception raised by \<open>process_query\<close> or \<open>text_to_speech\<close> leaves the handler as
  it was raised; the handler has then made that one collaborator call and no other (no
  retry, no read of the history), and the framework answers with its generic 500.
\<close>

theorem collaborator_failure_propagates:
  "(process_query C query session_id (store w) = (Inl e, s) \<longrightarrow>
      ask_question C query session_id w =
        (Inl e, \<lparr>store = s, calls = calls w @ [Call_process_query query session_id]\<rparr>)) \<and>
   (text_to_speech C text lang voice = Inl e \<longrightarrow>
      tts_endpoint C text lang voice w =
        (Inl e, w\<lparr>calls := calls w @ [Call_text_to_speech text lang voice]\<rparr>)) \<and>
   (verb req = POST \<and> path req = ''/ask'' \<and> form req ''query'' = Some query \<and>
    query \<noteq> [] \<and>
    or_default (form_value req ''session_id'') ''default_session'' = session_id \<and>
    process_query C query session_id (store w) = (Inl e, s) \<longrightarrow>
      app C req w =
        (Some Internal_server_error,
         \<lparr>store = s, calls = calls w @ [Call_process_query query session_id]\<rparr>)) \<and>
   (verb req = POST \<and> path req = ''/tts'' \<and> form req ''text'' = Some text \<and> text \<noteq> [] \<and>
    or_default (form_value req ''lang'') ''en'' = lang \<and>
    or_default (form_value req ''voice'') ''male'' = voice \<and>
    text_to_speech C text lang voice = Inl e \<longrightarrow>
      app C req w =
        (Some Internal_server_error,
         w\<lparr>calls := calls w @ [Call_text_to_speech text lang voice]\<rparr>)) \<and>
   status_code Internal_server_error = 500"
proof (intro conjI impI)
  show "status_code Internal_server_error = 500" by simp
qed (auto simp add: app_def ask_question_raises tts_endpoint_raises form_value_present)

theorem collaborator_failure_propagates_witness:
  "app demo (post_request ''/ask'' [(''query'', ''tell me everything there is'')]) w0 =
     (Some Internal_server_error,
      \<lparr>store = [],
         calls = [Call_process_query ''tell me everything there is'' ''default_session'']\<rparr>) \<and>
   app demo (post_request ''/tts'' [(''lang'', ''es''), (''text'', ''hola'')]) w0 =
     (Some Internal_server_error,
      \<lparr>store = [], calls = [Call_text_to_speech ''hola'' ''es'' ''male'']\<rparr>)"
  using collaborator_failure_propagates [of demo "''tell me everything there is''"
      "''default_session''" w0 "Exception ''query too long''" "[]" "''hola''" "''es''" "''male''"
      "post_request ''/ask'' [(''query'', ''tell me everything there is'')]"]
    collaborator_failure_propagates [of demo "''tell me everything there is''"
      "''default_session''" w0 "Exception ''unsupported language''" "[]" "''hola''" "''es''"
      "''male''" "post_request ''/tts'' [(''lang'', ''es''), (''text'', ''hola'')]"]
  by (simp add: post_request_def or_default_def form_value_def demo_def w0_def)

text \<open>
  C7: a \<^verbatim>\<open>POST /ask\<close> request without the required form field \<^verbatim>\<open>query\<close> is answered
  with a client error (422, not a 500); the handler does not run, so \<open>process_query\<close> is
  not called and nothing changes.
\<close>

theorem ask_without_query_rejected:
  assumes "verb req = POST" and "path req = ''/ask''" and "form req ''query'' = None"
  shows "app C req w = (Some Unprocessable_entity, w) \<and>
         400 \<le> status_code Unprocessable_entity \<and> status_code Unprocessable_entity < 500 \<and>
         calls (snd (app C req w)) = calls w"
  using assms by (simp add: app_def form_value_def)

theorem ask_without_query_rejected_witness:
  "app demo (post_request ''/ask'' [(''session_id'', ''s1'')]) w_seen =
     (Some Unprocessable_entity, w_seen)"
  using ask_without_query_rejected [of "post_request ''/ask'' [(''session_id'', ''s1'')]" demo w_seen]
  by (simp add: post_request_def)

text \<open>
  C8: a request that omits \<^verbatim>\<open>session_id\<close> (on \<^verbatim>\<open>GET /history\<close> and on \<^verbatim>\<open>POST /ask\<close>),
  \<^verbatim>\<open>lang\<close> or \<^verbatim>\<open>voice\<close> (on \<^verbatim>\<open>POST /tts\<close>) runs the handler with \<^verbatim>\<open>default_session\<close>,
  \<^verbatim>\<open>en\<close> or \<^verbatim>\<open>male\<close> in its place, and is handled exactly as the same request with the
  field set to that value: same response, same state after.
\<close>

theorem omitted_field_takes_default:
  "(verb req = GET \<and> path req = ''/history'' \<and> query_params req ''session_id'' = None \<longrightarrow>
      app C req w =
        (case get_history C ''default_session'' w of
           (body, w1) \<Rightarrow> (Some (JSONResponse 200 body), w1)) \<and>
      app C req w =
        app C (req\<lparr>query_params := (query_params req)(''session_id'' \<mapsto> ''default_session'')\<rparr>) w) \<and>
   (verb req = POST \<and> path req = ''/ask'' \<and> form req ''session_id'' = None \<longrightarrow>
      (form req ''query'' = Some query \<and> query \<noteq> [] \<longrightarrow>
         app C req w =
           (case ask_question C query ''default_session'' w of
              (Inl e, w1) \<Rightarrow> (Some Internal_server_error, w1)
            | (Inr body, w1) \<Rightarrow> (Some (JSONResponse 200 body), w1))) \<and>
      app C req w =
        app C (req\<lparr>form := (form req)(''session_id'' \<mapsto> ''default_session'')\<rparr>) w) \<and>
   (verb req = POST \<and> path req = ''/tts'' \<and> form req ''lang'' = None \<longrightarrow>
      (form req ''text'' = Some text \<and> text \<noteq> [] \<longrightarrow>
         app C req w =
           (case tts_endpoint C text ''en'' (or_default (form_value req ''voice'') ''male'') w of
              (Inl e, w1) \<Rightarrow> (Some Internal_server_error, w1)
            | (Inr r, w1) \<Rightarrow> (Some r, w1))) \<and>
      app C req w = app C (req\<lparr>form := (form req)(''lang'' \<mapsto> ''en'')\<rparr>) w) \<and>
   (verb req = POST \<and> path req = ''/tts'' \<and> form req ''voice'' = None \<longrightarrow>
      (form req ''text'' = Some text \<and> text \<noteq> [] \<longrightarrow>
         app C req w =
           (case tts_endpoint C text (or_default (form_value req ''lang'') ''en'') ''male'' w of
              (Inl e, w1) \<Rightarrow> (Some Internal_server_error, w1)
            | (Inr r, w1) \<Rightarrow> (Some r, w1))) \<and>
      app C req w = app C (req\<lparr>form := (form req)(''voice'' \<mapsto> ''male'')\<rparr>) w)"
  by (simp add: app_def or_default_def form_value_def split: option.split)

theorem omitted_field_takes_default_witness:
  "app demo (get_request ''/history'' []) w_seen =
     app demo (get_request ''/history'' [(''session_id'', ''default_session'')]) w_seen \<and>
   calls (snd (app demo (get_request ''/history'' []) w_seen)) =
     [Call_get_session_history ''default_session''] \<and>
   app demo (post_request ''/ask'' [(''query'', ''hi'')]) w0 =
     app demo (post_request ''/ask'' [(''session_id'', ''default_session''), (''query'', ''hi'')]) w0 \<and>
   calls (snd (app demo (post_request ''/ask'' [(''query'', ''hi'')]) w0)) =
     [Call_process_query ''hi'' ''default_session'', Call_get_session_history ''default_session''] \<and>
   app demo (post_request ''/tts'' [(''text'', ''hi'')]) w0 =
     app demo (post_request ''/tts'' [(''lang'', ''en''), (''text'', ''hi'')]) w0 \<and>
   app demo (post_request ''/tts'' [(''text'', ''hi'')]) w0 =
     app demo (post_request ''/tts'' [(''voice'', ''male''), (''text'', ''hi'')]) w0 \<and>
   calls (snd (app demo (post_request ''/tts'' [(''text'', ''hi'')]) w0)) =
     [Call_text_to_speech ''hi'' ''en'' ''male'']"
proof -
  let ?h = "get_request ''/history'' []"
  let ?a = "post_request ''/ask'' [(''query'', ''hi'')]"
  let ?t = "post_request ''/tts'' [(''text'', ''hi'')]"
  have uh: "?h\<lparr>query_params := (query_params ?h)(''session_id'' \<mapsto> ''default_session'')\<rparr> =
              get_request ''/history'' [(''session_id'', ''default_session'')]"
    by (simp add: get_request_def)
  have ua: "?a\<lparr>form := (form ?a)(''session_id'' \<mapsto> ''default_session'')\<rparr> =
              post_request ''/ask'' [(''session_id'', ''default_session''), (''query'', ''hi'')]"
    by (simp add: post_request_def)
  have ul: "?t\<lparr>form := (form ?t)(''lang'' \<mapsto> ''en'')\<rparr> =
              post_request ''/tts'' [(''lang'', ''en''), (''text'', ''hi'')]"
    by (simp add: post_request_def)
  have uv: "?t\<lparr>form := (form ?t)(''voice'' \<mapsto> ''male'')\<rparr> =
              post_request ''/tts'' [(''voice'', ''male''), (''text'', ''hi'')]"
    by (simp add: post_request_def)
  have hh: "verb ?h = GET \<and> path ?h = ''/history'' \<and> query_params ?h ''session_id'' = None"
    by (simp add: get_request_def)
  have ha: "verb ?a = POST \<and> path ?a = ''/ask'' \<and> form ?a ''session_id'' = None"
    by (simp add: post_request_def)
  have hl: "verb ?t = POST \<and> path ?t = ''/tts'' \<and> form ?t ''lang'' = None"
    by (simp add: post_request_def)
  have hv: "verb ?t = POST \<and> path ?t = ''/tts'' \<and> form ?t ''voice'' = None"
    by (simp add: post_request_def)
  have qa: "form ?a ''query'' = Some ''hi'' \<and> ''hi'' \<noteq> []"
    by (simp add: post_request_def)
  have qt: "form ?t ''text'' = Some ''hi'' \<and> ''hi'' \<noteq> []"
    by (simp add: post_request_def)
  have dv: "or_default (form_value ?t ''voice'') ''male'' = ''male''"
    by (simp add: post_request_def form_value_def or_default_def)
  note h0 = omitted_field_takes_default [of ?h demo w_seen, THEN conjunct1, THEN mp, OF hh]
  note a0 = omitted_field_takes_default [of ?a demo w0 "''hi''",
      THEN conjunct2, THEN conjunct1, THEN mp, OF ha]
  note l0 = omitted_field_takes_default [of ?t demo w0 "''hi''" "''hi''",
      THEN conjunct2, THEN conjunct2, THEN conjunct1, THEN mp, OF hl]
  note v0 = omitted_field_takes_default [of ?t demo w0 "''hi''" "''hi''",
      THEN conjunct2, THEN conjunct2, THEN conjunct2, THEN mp, OF hv]
  have h1: "app demo ?h w_seen =
       (case get_history demo ''default_session'' w_seen of
          (body, w1) \<Rightarrow> (Some (JSONResponse 200 body), w1))"
    by (rule h0 [THEN conjunct1])
  have h: "app demo ?h w_seen =
       app demo (get_request ''/history'' [(''session_id'', ''default_session'')]) w_seen"
    using h0 [THEN conjunct2] by (simp only: uh)
  have a1: "app demo ?a w0 =
       (case ask_question demo ''hi'' ''default_session'' w0 of
          (Inl e, w1) \<Rightarrow> (Some Internal_server_error, w1)
        | (Inr body, w1) \<Rightarrow> (Some (JSONResponse 200 body), w1))"
    by (rule a0 [THEN conjunct1, THEN mp, OF qa])
  have a: "app demo ?a w0 =
       app demo (post_request ''/ask'' [(''session_id'', ''default_session''),
                                         (''query'', ''hi'')]) w0"
    using a0 [THEN conjunct2] by (simp only: ua)
  have l1: "app demo ?t w0 =
       (case tts_endpoint demo ''hi'' ''en'' ''male'' w0 of
          (Inl e, w1) \<Rightarrow> (Some Internal_server_error, w1)
        | (Inr r, w1) \<Rightarrow> (Some r, w1))"
    using l0 [THEN conjunct1, THEN mp, OF qt] by (simp only: dv)
  have l: "app demo ?t w0 =
       app demo (post_request ''/tts'' [(''lang'', ''en''), (''text'', ''hi'')]) w0"
    using l0 [THEN conjunct2] by (simp only: ul)
  have v: "app demo ?t w0 =
       app demo (post_request ''/tts'' [(''voice'', ''male''), (''text'', ''hi'')]) w0"
    using v0 [THEN conjunct2] by (simp only: uv)
  have ch: "calls (snd (case get_history demo ''default_session'' w_seen of
                          (body, w1) \<Rightarrow> (Some (JSONResponse 200 body), w1))) =
              [Call_get_session_history ''default_session'']"
    by (simp add: get_history_def call_get_session_history_def demo_def w_seen_def)
  have ca: "calls (snd (case ask_question demo ''hi'' ''default_session'' w0 of
                          (Inl e, w1) \<Rightarrow> (Some Internal_server_error, w1)
                        | (Inr body, w1) \<Rightarrow> (Some (JSONResponse 200 body), w1))) =
              [Call_process_query ''hi'' ''default_session'',
               Call_get_session_history ''default_session'']"
    by (simp add: ask_question_def call_process_query_def call_get_session_history_def
        demo_def w0_def)
  have cl: "calls (snd (case tts_endpoint demo ''hi'' ''en'' ''male'' w0 of
                          (Inl e, w1) \<Rightarrow> (Some Internal_server_error, w1)
                        | (Inr r, w1) \<Rightarrow> (Some r, w1))) =
              [Call_text_to_speech ''hi'' ''en'' ''male'']"
    by (simp add: tts_endpoint_def call_text_to_speech_def demo_def w0_def)
  from ch have 1: "calls (snd (app demo (get_request ''/history'' []) w_seen)) =
     [Call_get_session_history ''default_session'']"
    by (simp only: h1)
  from ca have 2: "calls (snd (app demo (post_request ''/ask'' [(''query'', ''hi'')]) w0)) =
     [Call_process_query ''hi'' ''default_session'', Call_get_session_history ''default_session'']"
    by (simp only: a1)
  from cl have 3: "calls (snd (app demo (post_request ''/tts'' [(''text'', ''hi'')]) w0)) =
     [Call_text_to_speech ''hi'' ''en'' ''male'']"
    by (simp only: l1)
  from h a l v 1 2 3 show ?thesis by blast
qed

text \<open>
  C9: handling \<^verbatim>\<open>GET /history\<close> or \<^verbatim>\<open>POST /tts\<close> leaves the session store as it was. A
  request after which the store differs is a \<^verbatim>\<open>POST /ask\<close> that binds a query, and the
  store is then the one \<open>process_query\<close> left for that query and the bound session.
\<close>

theorem history_and_tts_read_only:
  "store (snd (get_history C session_id w)) = store w \<and>
   store (snd (tts_endpoint C text lang voice w)) = store w \<and>
   (verb req = GET \<and> path req = ''/history'' \<longrightarrow> store (snd (app C req w)) = store w) \<and>
   (verb req = POST \<and> path req = ''/tts'' \<longrightarrow> store (snd (app C req w)) = store w) \<and>
   (store (snd (app C req w)) \<noteq> store w \<longrightarrow>
      verb req = POST \<and> path req = ''/ask'' \<and>
      (\<exists>query. form req ''query'' = Some query \<and> query \<noteq> [] \<and>
         store (snd (app C req w)) =
           snd (process_query C query
                  (or_default (form_value req ''session_id'') ''default_session'') (store w))))"
  by (auto simp add: get_history_world tts_endpoint_world app_store form_value_def
      split: if_splits option.splits)

theorem history_and_tts_read_only_witness:
  "store (snd (app demo (post_request ''/ask'' [(''query'', ''hi''), (''session_id'', [])]) w0))
     \<noteq> store w0 \<and>
   store (snd (app demo (post_request ''/ask'' [(''query'', ''hi''), (''session_id'', [])]) w0))
     = snd (process_query demo ''hi'' ''default_session'' (store w0)) \<and>
   store (snd (app demo (get_request ''/history'' []) w_seen)) = store w_seen \<and>
   store (snd (app demo (post_request ''/tts'' [(''text'', ''hi'')]) w_seen)) = store w_seen"
proof -
  let ?ask = "post_request ''/ask'' [(''query'', ''hi''), (''session_id'', [])]"
  have changed: "store (snd (app demo ?ask w0)) \<noteq> store w0"
    by (simp add: app_store post_request_def or_default_def form_value_def demo_def w0_def)
  have q: "form ?ask ''query'' = Some ''hi''"
    "or_default (form_value ?ask ''session_id'') ''default_session'' = ''default_session''"
    by (simp_all add: post_request_def form_value_def or_default_def)
  have g: "verb (get_request ''/history'' []) = GET \<and> path (get_request ''/history'' []) = ''/history''"
    by (simp add: get_request_def)
  have p: "verb (post_request ''/tts'' [(''text'', ''hi'')]) = POST \<and>
           path (post_request ''/tts'' [(''text'', ''hi'')]) = ''/tts''"
    by (simp add: post_request_def)
  from history_and_tts_read_only [of demo "''s1''" w0 "''hi''" "''en''" "''male''" ?ask] changed q
  have 1: "store (snd (app demo ?ask w0)) =
             snd (process_query demo ''hi'' ''default_session'' (store w0))"
    by auto
  from history_and_tts_read_only [of demo "''s1''" w_seen "''hi''" "''en''" "''male''"
      "get_request ''/history'' []"] g
  have 2: "store (snd (app demo (get_request ''/history'' []) w_seen)) = store w_seen"
    by blast
  from history_and_tts_read_only [of demo "''s1''" w_seen "''hi''" "''en''" "''male''"
      "post_request ''/tts'' [(''text'', ''hi'')]"] p
  have 3: "store (snd (app demo (post_request ''/tts'' [(''text'', ''hi'')]) w_seen)) = store w_seen"
    by blast
  from changed 1 2 3 show ?thesis by blast
qed




end
